theory Spec2Isabelle
  imports Complex_Main
begin

section \<open>Data model\<close>

text \<open>
  One row of the aggregated pickups table. The source reads rows as MySQL tuples and, in
  the models, as mappings with the keys \<^verbatim>\<open>id\<close>, \<^verbatim>\<open>start_datetime\<close>,
  \<^verbatim>\<open>zone_id\<close> and \<^verbatim>\<open>num_pickups\<close>. The key \<^verbatim>\<open>id\<close> is the field
  \<open>row_id\<close> here. Python's integers are unbounded, hence \<open>int\<close>; Python's floats are
  taken as real numbers.
\<close>

record datetime =
  year :: int
  month :: int
  day :: int
  hour :: int

record example =
  row_id :: int
  start_datetime :: datetime
  zone_id :: int
  num_pickups :: real

text \<open>
  The exceptions the modelled code can raise. \<open>OutOfRangeError\<close> is the
  \<^verbatim>\<open>Exception("Cannot access example ...")\<close> of \<^verbatim>\<open>getTestExample\<close>,
  \<open>UnknownModelNameError\<close> the \<^verbatim>\<open>Exception("No model with name ...")\<close> of
  \<^verbatim>\<open>getModel\<close>; the others are Python's own.
\<close>

datatype error =
    OutOfRangeError
  | UnknownModelNameError string
  | IndexError
  | TypeError
  | AssertionError
  | ValueError
  | CapabilityError string

text \<open>
  The database a \<^verbatim>\<open>Dataset\<close> is connected to maps a table name to the rows of
  that table. The queries of this program only read it.
\<close>

type_synonym database = "string \<Rightarrow> example list"

record dataset =
  db :: database
  last_train_id :: int
  last_test_id :: int
  current_example_id :: int
  table_name :: string

section \<open>Dataset\<close>

text \<open>Python's \<^verbatim>\<open>int(x)\<close> on a float truncates towards zero.\<close>

definition py_int :: "real \<Rightarrow> int" where
  "py_int x = (if x < 0 then \<lceil>x\<rceil> else \<lfloor>x\<rfloor>)"

definition AGGREGATED_PICKUPS :: string where
  "AGGREGATED_PICKUPS = ''pickups_aggregated''"

text \<open>
  \<^verbatim>\<open>Dataset.__init__(self, train_fraction, dataset_size, table_name)\<close>; the
  connection it opens is the parameter \<open>database\<close>.
\<close>

definition Dataset_init :: "database \<Rightarrow> real \<Rightarrow> int \<Rightarrow> string \<Rightarrow> dataset" where
  "Dataset_init database train_fraction dataset_size name =
     \<lparr>db = database,
      last_train_id = py_int (train_fraction * of_int dataset_size),
      last_test_id = dataset_size,
      current_example_id = 1,
      table_name = name\<rparr>"

definition hasMoreTrainExamples :: "dataset \<Rightarrow> bool" where
  "hasMoreTrainExamples d \<longleftrightarrow> current_example_id d \<le> last_train_id d"

definition hasMoreTestExamples :: "dataset \<Rightarrow> bool" where
  "hasMoreTestExamples d \<longleftrightarrow> current_example_id d \<le> last_test_id d"

text \<open>
  \<^verbatim>\<open>Dataset._getExamples(self, start_id, num_examples)\<close>: the rows of the table
  whose id lies between \<open>start_id\<close> and \<open>start_id + num_examples - 1\<close>, both
  inclusive (SQL \<^verbatim>\<open>BETWEEN\<close>).
\<close>

definition getExamples :: "dataset \<Rightarrow> int \<Rightarrow> int \<Rightarrow> example list" where
  "getExamples d start_id num_examples =
     (let end_id = start_id + num_examples - 1
      in filter (\<lambda>r. start_id \<le> row_id r \<and> row_id r \<le> end_id) (db d (table_name d)))"

text \<open>
  \<^verbatim>\<open>Dataset.getTrainExamples(self, batch_size)\<close> returns the examples and leaves
  the dataset with its cursor moved by the batch size it used.
\<close>

definition getTrainExamples :: "dataset \<Rightarrow> int \<Rightarrow> example list \<times> dataset" where
  "getTrainExamples d batch_size =
     (let batch_size' =
            (if current_example_id d + batch_size - 1 > last_train_id d
             then last_train_id d - current_example_id d + 1
             else batch_size);
          examples = getExamples d (current_example_id d) batch_size'
      in (examples, d\<lparr>current_example_id := current_example_id d + batch_size'\<rparr>))"

text \<open>
  \<^verbatim>\<open>Dataset.getTestExample(self)\<close>. The range check comes first and leaves the
  dataset as it was. The fast-forward is done before the fetch, so it stays when the
  fetch finds no row and \<^verbatim>\<open>[0]\<close> raises \<^verbatim>\<open>IndexError\<close>.
\<close>

definition getTestExample :: "dataset \<Rightarrow> (error + example) \<times> dataset" where
  "getTestExample d =
     (if current_example_id d > last_test_id d then (Inl OutOfRangeError, d)
      else
        let d1 = (if current_example_id d \<le> last_train_id d
                  then d\<lparr>current_example_id := last_train_id d + 1\<rparr> else d)
        in case getExamples d1 (current_example_id d1) 1 of
             [] \<Rightarrow> (Inl IndexError, d1)
           | example # _ \<Rightarrow>
               (Inr example, d1\<lparr>current_example_id := current_example_id d1 + 1\<rparr>))"

text \<open>
  A sequence of calls on one dataset: each call leaves the dataset in the state the next
  call starts from, whether it returned or raised.
\<close>

datatype call = GetTrainExamples int | GetTestExample

fun call_step :: "dataset \<Rightarrow> call \<Rightarrow> dataset" where
  "call_step d (GetTrainExamples batch_size) = snd (getTrainExamples d batch_size)"
| "call_step d GetTestExample = snd (getTestExample d)"

fun calls_run :: "dataset \<Rightarrow> call list \<Rightarrow> dataset" where
  "calls_run d [] = d"
| "calls_run d (c # cs) = calls_run (call_step d c) cs"

text \<open>
  The largest condition under which the cursor provably does not move back: every
  \<^verbatim>\<open>getTrainExamples\<close> call of the sequence has a batch size of at least 0 and
  starts with the cursor at most one past the train region (as it is whenever
  \<^verbatim>\<open>hasMoreTrainExamples()\<close> holds).
\<close>

fun train_calls_guarded :: "dataset \<Rightarrow> call list \<Rightarrow> bool" where
  "train_calls_guarded d [] = True"
| "train_calls_guarded d (GetTrainExamples batch_size # cs) =
     (0 \<le> batch_size \<and> current_example_id d \<le> last_train_id d + 1
      \<and> train_calls_guarded (call_step d (GetTrainExamples batch_size)) cs)"
| "train_calls_guarded d (GetTestExample # cs) =
     train_calls_guarded (call_step d GetTestExample) cs"

text \<open>The table holds exactly one row for every id from \<open>a\<close> to \<open>b\<close>.\<close>

definition one_row_per_id :: "example list \<Rightarrow> int \<Rightarrow> int \<Rightarrow> bool" where
  "one_row_per_id rows a b \<longleftrightarrow> (\<forall>i\<in>{a..b}. length (filter (\<lambda>r. row_id r = i) rows) = 1)"

section \<open>Models\<close>

text \<open>
  The baselines ask the row source for an average. The source formats an SQL string
  \<^verbatim>\<open>SELECT AVG(num_pickups) as avg_num_pickups FROM t WHERE [HOUR(start_datetime) = h AND]
  zone_id = z AND id <= n\<close>; the model keeps the four values that go into it. A row of
  the answer maps \<^verbatim>\<open>avg_num_pickups\<close> to a value, which for SQL may be \<^verbatim>\<open>NULL\<close>
  (Python's \<^verbatim>\<open>None\<close>, on which \<^verbatim>\<open>float\<close> raises \<^verbatim>\<open>TypeError\<close>).
\<close>

datatype avg_query =
  AvgNumPickups (from_table: string) (where_hour: "int option") (where_zone_id: int)
    (where_id_le: int)

datatype sql_value = Null | Number real

record avg_row =
  avg_num_pickups :: sql_value

definition py_float :: "sql_value \<Rightarrow> error + real" where
  "py_float v = (case v of Null \<Rightarrow> Inl TypeError | Number x \<Rightarrow> Inr x)"

text \<open>
  The fields of a \<^verbatim>\<open>Baseline\<close> or \<^verbatim>\<open>BetterBaseline\<close> object. \<open>execute_query\<close>
  is \<^verbatim>\<open>self.db.execute_query(query_string, fetch_all=False)\<close>: the database wrapper
  is not among the sources, so what it answers is a parameter of the model.
\<close>

record query_model =
  execute_query :: "avg_query \<Rightarrow> error + avg_row list"
  model_dataset :: dataset
  model_table_name :: string

text \<open>
  The fields of a \<^verbatim>\<open>RegressionModel\<close> that \<^verbatim>\<open>predict\<close> reads:
  \<open>getFeatureVectors\<close> is \<^verbatim>\<open>self.feature_extractor.getFeatureVectors(examples, is_test)\<close>
  and \<open>regressor_predict\<close> is \<^verbatim>\<open>self.regressor.predict(X)\<close>. The feature
  extractor and scikit-learn are not among the sources: both are parameters, and either
  may raise.
\<close>

record 'v regression_model =
  getFeatureVectors :: "example list \<Rightarrow> bool \<Rightarrow> error + 'v"
  regressor_predict :: "'v \<Rightarrow> error + real list"

datatype 'v model =
    Baseline query_model
  | BetterBaseline query_model
  | LinearRegression "'v regression_model"
  | SupportVectorRegression "'v regression_model"
  | DecisionTreeRegression "'v regression_model"

definition Baseline_query :: "query_model \<Rightarrow> example \<Rightarrow> avg_query" where
  "Baseline_query self test_example =
     AvgNumPickups (model_table_name self) None (zone_id test_example)
       (last_train_id (model_dataset self))"

definition BetterBaseline_query :: "query_model \<Rightarrow> example \<Rightarrow> avg_query" where
  "BetterBaseline_query self test_example =
     AvgNumPickups (model_table_name self) (Some (hour (start_datetime test_example)))
       (zone_id test_example) (last_train_id (model_dataset self))"

text \<open>\<^verbatim>\<open>Baseline.predict(self, test_example)\<close>\<close>

definition Baseline_predict :: "query_model \<Rightarrow> example \<Rightarrow> error + real" where
  "Baseline_predict self test_example =
     (case execute_query self (Baseline_query self test_example) of
        Inl e \<Rightarrow> Inl e
      | Inr results \<Rightarrow>
          if length results = 1 then py_float (avg_num_pickups (results ! 0)) else Inr 0)"

text \<open>\<^verbatim>\<open>BetterBaseline.predict(self, test_example)\<close>\<close>

definition BetterBaseline_predict :: "query_model \<Rightarrow> example \<Rightarrow> error + real" where
  "BetterBaseline_predict self test_example =
     (case execute_query self (BetterBaseline_query self test_example) of
        Inl e \<Rightarrow> Inl e
      | Inr results \<Rightarrow>
          if length results = 1 then py_float (avg_num_pickups (results ! 0)) else Inr 0)"

text \<open>
  \<^verbatim>\<open>RegressionModel.predict(self, test_example)\<close>, inherited by the three fitted
  variants. \<^verbatim>\<open>[0]\<close> on an empty prediction raises \<^verbatim>\<open>IndexError\<close>.
\<close>

definition RegressionModel_predict :: "'v regression_model \<Rightarrow> example \<Rightarrow> error + real" where
  "RegressionModel_predict self test_example =
     (case getFeatureVectors self [test_example] True of
        Inl e \<Rightarrow> Inl e
      | Inr vectorized_example \<Rightarrow>
          (case regressor_predict self vectorized_example of
             Inl e \<Rightarrow> Inl e
           | Inr [] \<Rightarrow> Inl IndexError
           | Inr (y # _) \<Rightarrow> Inr (max 0 y)))"

text \<open>The method \<^verbatim>\<open>predict\<close> of a model object, by its class.\<close>

fun predict :: "'v model \<Rightarrow> example \<Rightarrow> error + real" where
  "predict (Baseline self) test_example = Baseline_predict self test_example"
| "predict (BetterBaseline self) test_example = BetterBaseline_predict self test_example"
| "predict (LinearRegression self) test_example = RegressionModel_predict self test_example"
| "predict (SupportVectorRegression self) test_example =
     RegressionModel_predict self test_example"
| "predict (DecisionTreeRegression self) test_example =
     RegressionModel_predict self test_example"

text \<open>
  The object of a model by its family: the two query-average baselines, and the three
  fitted variants that inherit from \<^verbatim>\<open>RegressionModel\<close>. \<open>issued_query\<close> is
  the query a baseline sends for an example.
\<close>

fun query_average :: "'v model \<Rightarrow> query_model option" where
  "query_average (Baseline self) = Some self"
| "query_average (BetterBaseline self) = Some self"
| "query_average _ = None"

fun regression :: "'v model \<Rightarrow> 'v regression_model option" where
  "regression (LinearRegression self) = Some self"
| "regression (SupportVectorRegression self) = Some self"
| "regression (DecisionTreeRegression self) = Some self"
| "regression _ = None"

fun issued_query :: "'v model \<Rightarrow> example \<Rightarrow> avg_query option" where
  "issued_query (Baseline self) test_example = Some (Baseline_query self test_example)"
| "issued_query (BetterBaseline self) test_example =
     Some (BetterBaseline_query self test_example)"
| "issued_query _ test_example = None"

section \<open>Evaluator\<close>

text \<open>
  \<^verbatim>\<open>sklearn.metrics.mean_squared_error(y_true, y_pred)\<close>, a library function: the mean
  of the squared differences. It rejects inputs of different lengths; for no samples
  there is no mean (scikit-learn raises \<^verbatim>\<open>ValueError\<close> or yields NaN, by version),
  which the model reports as \<open>ValueError\<close>.
\<close>

definition mean_squared_error :: "real list \<Rightarrow> real list \<Rightarrow> error + real" where
  "mean_squared_error y_true y_pred =
     (if length y_true \<noteq> length y_pred \<or> y_true = [] then Inl ValueError
      else Inr (sum_list (map (\<lambda>(t, p). (t - p)\<^sup>2) (zip y_true y_pred))
                 / real (length y_true)))"

text \<open>\<^verbatim>\<open>math.sqrt\<close> raises \<^verbatim>\<open>ValueError\<close> on a negative number.\<close>

definition py_sqrt :: "real \<Rightarrow> error + real" where
  "py_sqrt x = (if x < 0 then Inl ValueError else Inr (sqrt x))"

text \<open>What \<^verbatim>\<open>evaluatePredictions\<close> prints: the two lists and the RMSD.\<close>

record report =
  true_printed :: "real list"
  predicted_printed :: "real list"
  rms :: real

definition evaluatePredictions :: "real list \<Rightarrow> real list \<Rightarrow> error + report" where
  "evaluatePredictions true_num_pickups predicted_num_pickups =
     (if length true_num_pickups \<noteq> length predicted_num_pickups then Inl AssertionError
      else case mean_squared_error true_num_pickups predicted_num_pickups of
             Inl e \<Rightarrow> Inl e
           | Inr mse \<Rightarrow>
               (case py_sqrt mse of
                  Inl e \<Rightarrow> Inl e
                | Inr r \<Rightarrow> Inr \<lparr>true_printed = true_num_pickups,
                                 predicted_printed = predicted_num_pickups, rms = r\<rparr>))"

text \<open>
  The loop of \<^verbatim>\<open>Evaluator.evaluate\<close> that appends one prediction per test example;
  a prediction that raises ends it.
\<close>

fun predict_loop :: "(example \<Rightarrow> error + real) \<Rightarrow> example list \<Rightarrow> real list \<Rightarrow> error + real list" where
  "predict_loop model_predict [] predicted_num_pickups = Inr predicted_num_pickups"
| "predict_loop model_predict (test_example # test_data) predicted_num_pickups =
     (case model_predict test_example of
        Inl e \<Rightarrow> Inl e
      | Inr y \<Rightarrow> predict_loop model_predict test_data (predicted_num_pickups @ [y]))"

text \<open>
  \<^verbatim>\<open>Evaluator.evaluate(self)\<close>. \<open>model_generateTestData\<close> and \<open>model_predict\<close>
  are the methods \<^verbatim>\<open>self.model.generateTestData\<close> and \<^verbatim>\<open>self.model.predict\<close>;
  the first may move the cursor of the dataset.
\<close>

definition evaluate ::
  "(dataset \<Rightarrow> (error + example list \<times> real list) \<times> dataset) \<Rightarrow> (example \<Rightarrow> error + real)
    \<Rightarrow> dataset \<Rightarrow> (error + report) \<times> dataset" where
  "evaluate model_generateTestData model_predict dataset =
     (case model_generateTestData dataset of
        (Inl e, dataset') \<Rightarrow> (Inl e, dataset')
      | (Inr (test_data, true_num_pickups), dataset') \<Rightarrow>
          (case predict_loop model_predict test_data [] of
             Inl e \<Rightarrow> (Inl e, dataset')
           | Inr predicted_num_pickups \<Rightarrow>
               (evaluatePredictions true_num_pickups predicted_num_pickups, dataset')))"

text \<open>
  Modelled from the spec: \<^verbatim>\<open>generateTestData\<close>, the method of the model that
  \<^verbatim>\<open>Evaluator.evaluate\<close> calls for the test examples and their true labels, is not
  among the sources (no class of \<^verbatim>\<open>models.py\<close> defines it). The spec has the
  evaluation call \<^verbatim>\<open>getTestExample()\<close> while \<^verbatim>\<open>hasMoreTestExamples()\<close> is true and
  take each example's \<^verbatim>\<open>num_pickups\<close> as its true label.
\<close>

function test_examples :: "dataset \<Rightarrow> (error + example list) \<times> dataset" where
  "test_examples d =
     (if hasMoreTestExamples d then
        (case getTestExample d of
           (Inl e, d') \<Rightarrow> (Inl e, d')
         | (Inr test_example, d') \<Rightarrow>
             (case test_examples d' of
                (Inl e, d'') \<Rightarrow> (Inl e, d'')
              | (Inr rest, d'') \<Rightarrow> (Inr (test_example # rest), d'')))
      else (Inr [], d))"
  by pat_completeness auto
termination
proof (relation "measure (\<lambda>d. nat (last_test_id d + 1 - current_example_id d))")
  show "wf (measure (\<lambda>d. nat (last_test_id d + 1 - current_example_id d)))"
    by simp
next
  fix d d' :: dataset and r :: "error + example" and test_example :: example
  assume "hasMoreTestExamples d" and "(r, d') = getTestExample d" and "r = Inr test_example"
  then show "(d', d) \<in> measure (\<lambda>d. nat (last_test_id d + 1 - current_example_id d))"
    by (auto simp: hasMoreTestExamples_def getTestExample_def Let_def
        split: if_splits list.splits)
qed

declare test_examples.simps [simp del]

text \<open>
  Modelled from the spec: \<^verbatim>\<open>generateTestData\<close> (not among the sources) returns
  the test examples that this loop collects and, as their true labels, the
  \<^verbatim>\<open>num_pickups\<close> field of each.
\<close>

definition generateTestData :: "dataset \<Rightarrow> (error + example list \<times> real list) \<times> dataset" where
  "generateTestData d =
     (case test_examples d of
        (Inl e, d') \<Rightarrow> (Inl e, d')
      | (Inr test_data, d') \<Rightarrow> (Inr (test_data, map num_pickups test_data), d'))"

section \<open>Entry point\<close>




section \<open>Example data\<close>

text \<open>A table of twenty rows with the ids 1 to 20, and an empty one.\<close>

definition mk_example :: "int \<Rightarrow> example" where
  "mk_example i =
     \<lparr>row_id = i, start_datetime = \<lparr>year = 2013, month = 1, day = 1, hour = i mod 24\<rparr>,
      zone_id = i mod 3, num_pickups = of_int (i mod 5)\<rparr>"

definition sample_db :: database where
  "sample_db name = (if name = AGGREGATED_PICKUPS then map mk_example [1..20] else [])"

definition empty_db :: database where
  "empty_db name = []"

definition sample_dataset :: dataset where
  "sample_dataset = Dataset_init sample_db (7 / 10) 20 AGGREGATED_PICKUPS"

text \<open>
  Example models: a baseline whose row source answers every query with the given rows,
  and a fitted variant whose regressor answers every vector with the given value.
\<close>

definition constant_source :: "avg_row list \<Rightarrow> avg_query \<Rightarrow> error + avg_row list" where
  "constant_source rows query_string = Inr rows"

definition sample_query_model :: "avg_row list \<Rightarrow> query_model" where
  "sample_query_model rows =
     \<lparr>execute_query = constant_source rows, model_dataset = sample_dataset,
      model_table_name = AGGREGATED_PICKUPS\<rparr>"

definition unit_features :: "example list \<Rightarrow> bool \<Rightarrow> error + unit" where
  "unit_features examples is_test = Inr ()"

definition constant_regressor :: "real \<Rightarrow> unit \<Rightarrow> error + real list" where
  "constant_regressor y X = Inr [y]"

definition sample_regression_model :: "real \<Rightarrow> unit regression_model" where
  "sample_regression_model y =
     \<lparr>getFeatureVectors = unit_features, regressor_predict = constant_regressor y\<rparr>"



definition constant_predict :: "real \<Rightarrow> unit \<Rightarrow> example \<Rightarrow> error + real" where
  "constant_predict y model test_example = Inr y"

section \<open>Facts about the example data\<close>

lemma sample_dataset_fields:
  "db sample_dataset = sample_db" "last_train_id sample_dataset = 14"
  "last_test_id sample_dataset = 20" "current_example_id sample_dataset = 1"
  "table_name sample_dataset = AGGREGATED_PICKUPS"
  by (simp_all add: sample_dataset_def Dataset_init_def py_int_def)

lemma row_id_mk_example: "row_id (mk_example i) = i"
  by (simp add: mk_example_def)

lemma filter_upto:
  "filter (\<lambda>i. a \<le> i \<and> i \<le> b) [l..u] = [max a l..min b u]"
proof (induction l u rule: upto.induct)
  case (1 i j)
  show ?case
  proof (cases "i \<le> j")
    case False
    then show ?thesis by simp
  next
    case True
    note IH = 1 [OF True]
    have unfold: "[i..j] = i # [i + 1..j]"
      using True by (simp add: upto_rec1)
    consider "i < a" | "a \<le> i" "i \<le> b" | "b < i" by linarith
    then show ?thesis
    proof cases
      case 1
      then have "max a (i + 1) = max a i" by simp
      with 1 IH show ?thesis by (simp add: unfold)
    next
      case 2
      then have "[max a i..min b j] = i # [i + 1..min b j]"
        using True by (simp add: upto_rec1)
      moreover from 2 have "max a (i + 1) = i + 1" by simp
      ultimately show ?thesis using 2 IH by (simp add: unfold)
    next
      case 3
      then show ?thesis using IH by (simp add: unfold)
    qed
  qed
qed

lemma getExamples_sample:
  "db d = sample_db \<Longrightarrow> table_name d = AGGREGATED_PICKUPS \<Longrightarrow>
   getExamples d s n = map mk_example [max s 1..min (s + n - 1) 20]"
  by (simp add: getExamples_def sample_db_def filter_map comp_def row_id_mk_example filter_upto)

lemma upto_1_2: "[1..2] = [1, 2 :: int]"
  by code_simp

lemma upto_13_14: "[13..14] = [13, 14 :: int]"
  by code_simp

lemma sample_one_row_per_id: "one_row_per_id (sample_db AGGREGATED_PICKUPS) 1 2"
  by code_simp

lemma sample_one_row_per_id_last: "one_row_per_id (sample_db AGGREGATED_PICKUPS) 13 14"
  by code_simp

section \<open>The split boundary\<close>





section \<open>Fetching examples\<close>

lemma getExamples_ids:
  "ex \<in> set (getExamples d s n) \<Longrightarrow> s \<le> row_id ex \<and> row_id ex \<le> s + n - 1"
  by (simp add: getExamples_def Let_def)

lemma getExamples_cursor [simp]:
  "getExamples (d\<lparr>current_example_id := c\<rparr>) s n = getExamples d s n"
  by (simp add: getExamples_def)

text \<open>No call changes the boundaries, the connection or the table name.\<close>

lemma getTestExample_frame:
  "last_train_id (snd (getTestExample d)) = last_train_id d
   \<and> last_test_id (snd (getTestExample d)) = last_test_id d
   \<and> db (snd (getTestExample d)) = db d
   \<and> table_name (snd (getTestExample d)) = table_name d"
  by (simp add: getTestExample_def Let_def split: list.splits)




text \<open>
  A returned test example is the row at the cursor, or at \<open>last_train_id + 1\<close> when
  the cursor was still in the train region, and the cursor ends one past it.
\<close>

lemma getTestExample_row_id:
  assumes "getTestExample d = (Inr ex, d')"
  shows "row_id ex = max (current_example_id d) (last_train_id d + 1)
       \<and> current_example_id d' = row_id ex + 1"
proof (cases "current_example_id d \<le> last_train_id d")
  case True
  with assms obtain rest where fetch: "getExamples d (last_train_id d + 1) 1 = ex # rest"
    and d': "d' = d\<lparr>current_example_id := last_train_id d + 2\<rparr>"
    by (auto simp: getTestExample_def Let_def split: if_splits list.splits)
  from fetch have "ex \<in> set (getExamples d (last_train_id d + 1) 1)" by simp
  then have "row_id ex = last_train_id d + 1"
    using getExamples_ids [of ex d "last_train_id d + 1" 1] by simp
  with True d' show ?thesis by simp
next
  case False
  with assms obtain rest where fetch: "getExamples d (current_example_id d) 1 = ex # rest"
    and d': "d' = d\<lparr>current_example_id := current_example_id d + 1\<rparr>"
    by (auto simp: getTestExample_def Let_def split: if_splits list.splits)
  from fetch have "ex \<in> set (getExamples d (current_example_id d) 1)" by simp
  then have "row_id ex = current_example_id d"
    using getExamples_ids [of ex d "current_example_id d" 1] by simp
  with False d' show ?thesis by simp
qed

lemma getTestExample_above_train:
  "getTestExample d = (Inr ex, d') \<Longrightarrow> last_train_id d < row_id ex"
  using getTestExample_row_id [of d ex d'] by simp





lemma sample_test_at_3:
  "getTestExample (sample_dataset\<lparr>current_example_id := 3\<rparr>)
     = (Inr (mk_example 15), sample_dataset\<lparr>current_example_id := 16\<rparr>)"
  by (simp add: getTestExample_def Let_def sample_dataset_fields getExamples_sample)


section \<open>Train batches\<close>

lemma length_filter_window:
  "length (filter (\<lambda>r. a \<le> f r \<and> f r \<le> b) xs)
     = (\<Sum>i\<in>{a..b::int}. length (filter (\<lambda>r. f r = i) xs))"
proof (induction xs)
  case Nil
  show ?case by simp
next
  case (Cons x xs)
  have "(\<Sum>i\<in>{a..b}. length (filter (\<lambda>r. f r = i) (x # xs)))
      = (\<Sum>i\<in>{a..b}. (if f x = i then 1 else 0) + length (filter (\<lambda>r. f r = i) xs))"
    by (rule sum.cong) auto
  also have "\<dots> = (\<Sum>i\<in>{a..b}. if f x = i then 1 else 0)
      + (\<Sum>i\<in>{a..b}. length (filter (\<lambda>r. f r = i) xs))"
    by (simp add: sum.distrib)
  also have "(\<Sum>i\<in>{a..b}. if f x = i then 1 else 0)
      = (if a \<le> f x \<and> f x \<le> b then 1 else 0 :: nat)"
    by simp
  finally show ?case using Cons by simp
qed

lemma length_window:
  assumes "one_row_per_id xs a b"
  shows "int (length (filter (\<lambda>r. a \<le> row_id r \<and> row_id r \<le> b) xs)) = max 0 (b - a + 1)"
proof -
  have "length (filter (\<lambda>r. a \<le> row_id r \<and> row_id r \<le> b) xs) = (\<Sum>i\<in>{a..b}. 1)"
    using assms by (simp add: length_filter_window one_row_per_id_def)
  then show ?thesis by simp
qed

text \<open>
  C2 (amended). With the cursor in the train region, \<^verbatim>\<open>getTrainExamples(batch_size)\<close>
  returns only rows with ids from the cursor to \<open>last_train_id\<close>, for every batch size.
  When the requested window would cross \<open>last_train_id\<close>, it returns exactly the rows
  of the table from the cursor to \<open>last_train_id\<close> and raises nothing, and the cursor
  ends at \<open>last_train_id + 1\<close>. For a batch size of at least 0 and a table that holds
  exactly one row for every id of the window that is fetched, the cursor advances by
  the number of rows returned.
\<close>

theorem getTrainExamples_truncates:
  assumes "current_example_id d \<le> last_train_id d"
  shows "(\<forall>ex\<in>set (fst (getTrainExamples d n)).
            current_example_id d \<le> row_id ex \<and> row_id ex \<le> last_train_id d)
     \<and> (last_train_id d < current_example_id d + n - 1 \<longrightarrow>
            fst (getTrainExamples d n)
              = filter (\<lambda>r. current_example_id d \<le> row_id r \<and> row_id r \<le> last_train_id d)
                  (db d (table_name d))
          \<and> current_example_id (snd (getTrainExamples d n)) = last_train_id d + 1)
     \<and> (0 \<le> n \<and> one_row_per_id (db d (table_name d)) (current_example_id d)
                     (min (current_example_id d + n - 1) (last_train_id d)) \<longrightarrow>
            current_example_id (snd (getTrainExamples d n))
              = current_example_id d + int (length (fst (getTrainExamples d n))))"
proof (intro conjI impI ballI)
  fix ex assume "ex \<in> set (fst (getTrainExamples d n))"
  then show "current_example_id d \<le> row_id ex" and "row_id ex \<le> last_train_id d"
    by (auto simp: getTrainExamples_def Let_def getExamples_def split: if_splits)
next
  assume "last_train_id d < current_example_id d + n - 1"
  then show "fst (getTrainExamples d n)
              = filter (\<lambda>r. current_example_id d \<le> row_id r \<and> row_id r \<le> last_train_id d)
                  (db d (table_name d))"
    and "current_example_id (snd (getTrainExamples d n)) = last_train_id d + 1"
    by (simp_all add: getTrainExamples_def Let_def getExamples_def)
next
  assume a: "0 \<le> n \<and> one_row_per_id (db d (table_name d)) (current_example_id d)
                     (min (current_example_id d + n - 1) (last_train_id d))"
  show "current_example_id (snd (getTrainExamples d n))
              = current_example_id d + int (length (fst (getTrainExamples d n)))"
  proof (cases "last_train_id d < current_example_id d + n - 1")
    case True
    with a have "one_row_per_id (db d (table_name d)) (current_example_id d) (last_train_id d)"
      by (simp add: min_def)
    from length_window [OF this] True assms show ?thesis
      by (simp add: getTrainExamples_def Let_def getExamples_def)
  next
    case False
    with a have "one_row_per_id (db d (table_name d)) (current_example_id d)
        (current_example_id d + n - 1)"
      by (simp add: min_def)
    from length_window [OF this] False a show ?thesis
      by (simp add: getTrainExamples_def Let_def getExamples_def)
  qed
qed

lemma sample_train_batch:
  "getTrainExamples sample_dataset 2
     = ([mk_example 1, mk_example 2], sample_dataset\<lparr>current_example_id := 3\<rparr>)"
  by (simp add: getTrainExamples_def Let_def sample_dataset_fields getExamples_sample upto_1_2)

lemma sample_train_last_batch:
  "getTrainExamples (sample_dataset\<lparr>current_example_id := 13\<rparr>) 5
     = ([mk_example 13, mk_example 14], sample_dataset\<lparr>current_example_id := 15\<rparr>)"
  by (simp add: getTrainExamples_def Let_def sample_dataset_fields getExamples_sample upto_13_14)

theorem getTrainExamples_truncates_witness:
  "current_example_id sample_dataset \<le> last_train_id sample_dataset
   \<and> (0 :: int) \<le> 2
   \<and> one_row_per_id (db sample_dataset (table_name sample_dataset))
        (current_example_id sample_dataset)
        (min (current_example_id sample_dataset + 2 - 1) (last_train_id sample_dataset))
   \<and> fst (getTrainExamples sample_dataset 2) = [mk_example 1, mk_example 2]
   \<and> current_example_id (snd (getTrainExamples sample_dataset 2))
        = current_example_id sample_dataset + int (length (fst (getTrainExamples sample_dataset 2)))
   \<and> current_example_id (sample_dataset\<lparr>current_example_id := 13\<rparr>)
        \<le> last_train_id (sample_dataset\<lparr>current_example_id := 13\<rparr>)
   \<and> last_train_id (sample_dataset\<lparr>current_example_id := 13\<rparr>)
        < current_example_id (sample_dataset\<lparr>current_example_id := 13\<rparr>) + 5 - 1
   \<and> fst (getTrainExamples (sample_dataset\<lparr>current_example_id := 13\<rparr>) 5)
        = [mk_example 13, mk_example 14]
   \<and> current_example_id (snd (getTrainExamples (sample_dataset\<lparr>current_example_id := 13\<rparr>) 5))
        = 13 + 2"
  using getTrainExamples_truncates [of sample_dataset 2] sample_one_row_per_id
    getTrainExamples_truncates [of "sample_dataset\<lparr>current_example_id := 13\<rparr>" 5]
    sample_one_row_per_id_last
  by (simp add: sample_dataset_fields sample_train_batch sample_train_last_batch)

text \<open>
  The claim fails for a negative batch size (no row is returned and the cursor moves
  back from 1 to 0), and for a table without the rows of the window (no row is returned
  and the cursor moves on from 1 to 3).
\<close>

lemma sample_train_negative:
  "getTrainExamples sample_dataset (- 1) = ([], sample_dataset\<lparr>current_example_id := 0\<rparr>)"
  by (simp add: getTrainExamples_def Let_def sample_dataset_fields getExamples_sample)

lemma empty_train_batch:
  "getTrainExamples (Dataset_init empty_db (7 / 10) 20 AGGREGATED_PICKUPS) 2
     = ([], Dataset_init empty_db (7 / 10) 20 AGGREGATED_PICKUPS\<lparr>current_example_id := 3\<rparr>)"
  by (simp add: getTrainExamples_def Let_def Dataset_init_def py_int_def getExamples_def
      empty_db_def)

theorem getTrainExamples_cursor_not_row_count:
  "current_example_id sample_dataset \<le> last_train_id sample_dataset
   \<and> current_example_id sample_dataset = 1
   \<and> fst (getTrainExamples sample_dataset (- 1)) = []
   \<and> current_example_id (snd (getTrainExamples sample_dataset (- 1))) = 0
   \<and> current_example_id (Dataset_init empty_db (7 / 10) 20 AGGREGATED_PICKUPS)
        \<le> last_train_id (Dataset_init empty_db (7 / 10) 20 AGGREGATED_PICKUPS)
   \<and> current_example_id (Dataset_init empty_db (7 / 10) 20 AGGREGATED_PICKUPS) = 1
   \<and> fst (getTrainExamples (Dataset_init empty_db (7 / 10) 20 AGGREGATED_PICKUPS) 2) = []
   \<and> current_example_id
        (snd (getTrainExamples (Dataset_init empty_db (7 / 10) 20 AGGREGATED_PICKUPS) 2)) = 3"
  unfolding sample_train_negative empty_train_batch
  by (simp add: sample_dataset_fields Dataset_init_def py_int_def)

section \<open>The cursor\<close>

lemma getTestExample_cursor:
  "current_example_id d \<le> current_example_id (snd (getTestExample d))"
  by (simp add: getTestExample_def Let_def split: list.splits)

lemma getTrainExamples_cursor:
  "0 \<le> n \<Longrightarrow> current_example_id d \<le> last_train_id d + 1
   \<Longrightarrow> current_example_id d \<le> current_example_id (snd (getTrainExamples d n))"
  by (simp add: getTrainExamples_def Let_def)

lemma calls_run_cursor:
  "train_calls_guarded d cs \<Longrightarrow> current_example_id d \<le> current_example_id (calls_run d cs)"
proof (induction d cs rule: train_calls_guarded.induct)
  case (1 d)
  show ?case by simp
next
  case (2 d n cs)
  then have "current_example_id d \<le> current_example_id (snd (getTrainExamples d n))"
    by (simp add: getTrainExamples_cursor)
  with 2 show ?case by simp
next
  case (3 d cs)
  have "current_example_id d \<le> current_example_id (snd (getTestExample d))"
    by (rule getTestExample_cursor)
  with 3 show ?case by simp
qed

text \<open>
  C9 (amended). \<^verbatim>\<open>getTestExample\<close> never moves the cursor back.
  \<^verbatim>\<open>getTrainExamples(batch_size)\<close> does not move it back when \<open>batch_size \<ge> 0\<close>
  and the cursor is at most \<open>last_train_id + 1\<close>, as it is whenever
  \<^verbatim>\<open>hasMoreTrainExamples()\<close> is true. Hence the cursor is non-decreasing along every
  sequence of calls whose \<^verbatim>\<open>getTrainExamples\<close> calls all meet these two conditions.
\<close>

theorem cursor_not_rewound:
  "current_example_id d \<le> current_example_id (snd (getTestExample d))
   \<and> (0 \<le> batch_size \<and> current_example_id d \<le> last_train_id d + 1 \<longrightarrow>
        current_example_id d \<le> current_example_id (snd (getTrainExamples d batch_size)))
   \<and> (hasMoreTrainExamples d \<longrightarrow> current_example_id d \<le> last_train_id d + 1)
   \<and> (train_calls_guarded d cs \<longrightarrow>
        current_example_id d \<le> current_example_id (calls_run d cs))"
  by (simp add: getTestExample_cursor getTrainExamples_cursor calls_run_cursor
      hasMoreTrainExamples_def)

lemma sample_guarded_run:
  "train_calls_guarded sample_dataset [GetTrainExamples 2, GetTestExample]"
  by (simp add: getTrainExamples_def Let_def sample_dataset_fields)

lemma sample_run:
  "calls_run sample_dataset [GetTrainExamples 2, GetTestExample]
     = sample_dataset\<lparr>current_example_id := 16\<rparr>"
  by (simp add: sample_train_batch sample_test_at_3)

theorem cursor_not_rewound_witness:
  "(0 :: int) \<le> 2 \<and> hasMoreTrainExamples sample_dataset
   \<and> current_example_id sample_dataset \<le> last_train_id sample_dataset + 1
   \<and> train_calls_guarded sample_dataset [GetTrainExamples 2, GetTestExample]
   \<and> current_example_id sample_dataset = 1
   \<and> current_example_id (snd (getTrainExamples sample_dataset 2)) = 3
   \<and> current_example_id (calls_run sample_dataset [GetTrainExamples 2, GetTestExample]) = 16"
  using cursor_not_rewound [of sample_dataset 2 "[GetTrainExamples 2, GetTestExample]"]
    sample_guarded_run
  by (simp add: sample_run sample_train_batch sample_dataset_fields hasMoreTrainExamples_def
      del: calls_run.simps)

text \<open>
  The cursor is rewound by a negative batch size (from 1 to 0), and by
  \<^verbatim>\<open>getTrainExamples(1)\<close> after two test examples have been read (from 17 to 15).
\<close>

lemma sample_two_tests:
  "calls_run sample_dataset [GetTestExample, GetTestExample]
     = sample_dataset\<lparr>current_example_id := 17\<rparr>"
  by (simp add: getTestExample_def Let_def sample_dataset_fields getExamples_sample)

lemma sample_train_after_tests:
  "getTrainExamples (sample_dataset\<lparr>current_example_id := 17\<rparr>) 1
     = ([], sample_dataset\<lparr>current_example_id := 15\<rparr>)"
  by (simp add: getTrainExamples_def Let_def sample_dataset_fields getExamples_sample)

theorem cursor_rewound:
  "current_example_id sample_dataset = 1
   \<and> current_example_id (call_step sample_dataset (GetTrainExamples (- 1))) = 0
   \<and> current_example_id (calls_run sample_dataset [GetTestExample, GetTestExample]) = 17
   \<and> current_example_id
        (call_step (calls_run sample_dataset [GetTestExample, GetTestExample])
           (GetTrainExamples 1)) = 15"
  unfolding sample_two_tests
  by (simp add: sample_train_negative sample_train_after_tests sample_dataset_fields)

section \<open>Predictions\<close>

lemma py_float_Inr: "py_float v = Inr y \<longleftrightarrow> v = Number y"
  by (cases v) (simp_all add: py_float_def)

lemma RegressionModel_predict_nonneg:
  "RegressionModel_predict self test_example = Inr y \<Longrightarrow> 0 \<le> y"
  by (auto simp: RegressionModel_predict_def split: sum.splits list.splits)

lemma RegressionModel_predict_clamp:
  "getFeatureVectors self [test_example] True = Inr X
   \<Longrightarrow> regressor_predict self X = Inr (raw # rest)
   \<Longrightarrow> RegressionModel_predict self test_example = Inr (max 0 raw)"
  by (simp add: RegressionModel_predict_def)

text \<open>
  What a baseline answers is decided by the rows of the one query it issues: the average
  of a single row, and 0.0 for any other number of rows.
\<close>

lemma Baseline_predict_rows:
  "execute_query self (Baseline_query self test_example) = Inr results
   \<Longrightarrow> Baseline_predict self test_example =
         (case results of [r] \<Rightarrow> py_float (avg_num_pickups r) | _ \<Rightarrow> Inr 0)"
  by (cases results rule: list.exhaust [case_names Nil Cons])
    (auto simp: Baseline_predict_def split: list.splits)

lemma BetterBaseline_predict_rows:
  "execute_query self (BetterBaseline_query self test_example) = Inr results
   \<Longrightarrow> BetterBaseline_predict self test_example =
         (case results of [r] \<Rightarrow> py_float (avg_num_pickups r) | _ \<Rightarrow> Inr 0)"
  by (cases results rule: list.exhaust [case_names Nil Cons])
    (auto simp: BetterBaseline_predict_def split: list.splits)

lemma query_average_predict_rows:
  assumes "query_average m = Some self" and "issued_query m test_example = Some q"
    and "execute_query self q = Inr results"
  shows "predict m test_example =
           (case results of [r] \<Rightarrow> py_float (avg_num_pickups r) | _ \<Rightarrow> Inr 0)"
  using assms by (cases m) (simp_all add: Baseline_predict_rows BetterBaseline_predict_rows)

lemma query_average_predict_error:
  assumes "query_average m = Some self" and "issued_query m test_example = Some q"
    and "execute_query self q = Inl e"
  shows "predict m test_example = Inl e"
  using assms by (cases m) (simp_all add: Baseline_predict_def BetterBaseline_predict_def)

lemma issued_query_defined:
  "query_average m = Some self \<Longrightarrow> \<exists>q. issued_query m test_example = Some q"
  by (cases m) simp_all

lemma issued_query_train_scoped:
  assumes "query_average m = Some self" and "issued_query m test_example = Some q"
  shows "where_id_le q = last_train_id (model_dataset self)
       \<and> where_zone_id q = zone_id test_example
       \<and> from_table q = model_table_name self"
  using assms by (cases m) (auto simp: Baseline_query_def BetterBaseline_query_def)

text \<open>
  C3 (amended). For the three fitted regression variants, whenever \<^verbatim>\<open>predict\<close>
  returns a value it is at least 0.0, for every input example: it is the regressor's
  first output clamped by \<open>max 0\<close>, so a negative raw output gives 0.0. The two
  baselines do not clamp: they return 0.0 or the average of the single aggregate row as it
  is, so their prediction is at least 0.0 when no single-row answer of the row source
  carries a negative average.
\<close>

theorem predict_nonnegative:
  "(regression m = Some rm \<longrightarrow>
      (\<forall>y. predict m test_example = Inr y \<longrightarrow> 0 \<le> y)
      \<and> (\<forall>X raw rest. getFeatureVectors rm [test_example] True = Inr X
             \<and> regressor_predict rm X = Inr (raw # rest)
           \<longrightarrow> predict m test_example = Inr (max 0 raw)))
   \<and> (query_average m = Some qm
        \<and> (\<forall>q r a. execute_query qm q = Inr [r] \<and> avg_num_pickups r = Number a \<longrightarrow> 0 \<le> a)
      \<longrightarrow> (\<forall>y. predict m test_example = Inr y \<longrightarrow> 0 \<le> y))"
proof (intro conjI impI allI)
  fix y assume "regression m = Some rm" and "predict m test_example = Inr y"
  then show "0 \<le> y"
    by (cases m) (auto dest: RegressionModel_predict_nonneg)
next
  fix X raw rest
  assume "regression m = Some rm"
    and "getFeatureVectors rm [test_example] True = Inr X
         \<and> regressor_predict rm X = Inr (raw # rest)"
  then show "predict m test_example = Inr (max 0 raw)"
    by (cases m) (auto simp: RegressionModel_predict_clamp)
next
  fix y
  assume a: "query_average m = Some qm
      \<and> (\<forall>q r a. execute_query qm q = Inr [r] \<and> avg_num_pickups r = Number a \<longrightarrow> 0 \<le> a)"
    and y: "predict m test_example = Inr y"
  from a obtain q where q: "issued_query m test_example = Some q"
    using issued_query_defined by blast
  show "0 \<le> y"
  proof (cases "execute_query qm q")
    case (Inl e)
    with a q y show ?thesis by (simp add: query_average_predict_error)
  next
    case (Inr results)
    with a q have rows: "predict m test_example =
        (case results of [r] \<Rightarrow> py_float (avg_num_pickups r) | _ \<Rightarrow> Inr 0)"
      by (simp add: query_average_predict_rows)
    show ?thesis
    proof (cases "\<exists>r. results = [r]")
      case True
      then obtain r where r: "results = [r]" by blast
      with rows y have "py_float (avg_num_pickups r) = Inr y" by simp
      then have "avg_num_pickups r = Number y" by (simp add: py_float_Inr)
      with a Inr r show ?thesis by blast
    next
      case False
      then have "(case results of [r] \<Rightarrow> py_float (avg_num_pickups r) | _ \<Rightarrow> Inr 0) = Inr 0"
        by (auto split: list.splits)
      with rows y show ?thesis by simp
    qed
  qed
qed

lemma sample_regression_predict:
  "predict (LinearRegression (sample_regression_model (- 3))) (mk_example 15) = Inr 0"
  by (simp add: RegressionModel_predict_def sample_regression_model_def unit_features_def
      constant_regressor_def)

lemma sample_baseline_predict:
  "predict (Baseline (sample_query_model [\<lparr>avg_num_pickups = Number a\<rparr>]) :: unit model)
     (mk_example 15) = Inr a"
  by (simp add: Baseline_predict_def sample_query_model_def constant_source_def py_float_def)

theorem predict_nonnegative_witness:
  "regression (LinearRegression (sample_regression_model (- 3)))
     = Some (sample_regression_model (- 3))
   \<and> getFeatureVectors (sample_regression_model (- 3)) [mk_example 15] True = Inr ()
   \<and> regressor_predict (sample_regression_model (- 3)) () = Inr [- 3]
   \<and> predict (LinearRegression (sample_regression_model (- 3))) (mk_example 15)
       = Inr (max 0 (- 3))
   \<and> predict (LinearRegression (sample_regression_model (- 3))) (mk_example 15) = Inr 0
   \<and> query_average (Baseline (sample_query_model [\<lparr>avg_num_pickups = Number 4\<rparr>]) :: unit model)
       = Some (sample_query_model [\<lparr>avg_num_pickups = Number 4\<rparr>])
   \<and> predict (Baseline (sample_query_model [\<lparr>avg_num_pickups = Number 4\<rparr>]) :: unit model)
        (mk_example 15) = Inr 4
   \<and> (0 :: real) \<le> 4"
proof -
  have answers: "\<forall>q r a. execute_query (sample_query_model [\<lparr>avg_num_pickups = Number 4\<rparr>]) q
        = Inr [r] \<and> avg_num_pickups r = Number a \<longrightarrow> 0 \<le> a"
    by (auto simp: sample_query_model_def constant_source_def)
  have "0 \<le> (4 :: real)"
    using predict_nonnegative
      [of "Baseline (sample_query_model [\<lparr>avg_num_pickups = Number 4\<rparr>]) :: unit model"
        undefined "mk_example 15" "sample_query_model [\<lparr>avg_num_pickups = Number 4\<rparr>]"]
      answers sample_baseline_predict [of 4]
    by (simp del: predict.simps)
  then show ?thesis
    using predict_nonnegative [of "LinearRegression (sample_regression_model (- 3))"
      "sample_regression_model (- 3)" "mk_example 15"]
    by (simp add: sample_regression_predict sample_baseline_predict sample_regression_model_def
        unit_features_def constant_regressor_def del: predict.simps)
qed

text \<open>
  A baseline returns a negative average as it is: with one aggregate row whose average is
  \<open>-1\<close> both baselines predict \<open>-1\<close>.
\<close>

theorem baseline_predict_negative:
  "predict (Baseline (sample_query_model [\<lparr>avg_num_pickups = Number (- 1)\<rparr>]) :: unit model)
     (mk_example 15) = Inr (- 1)
   \<and> predict (BetterBaseline (sample_query_model [\<lparr>avg_num_pickups = Number (- 1)\<rparr>])
        :: unit model) (mk_example 15) = Inr (- 1)
   \<and> \<not> (0 :: real) \<le> - 1"
  by (simp add: Baseline_predict_def BetterBaseline_predict_def sample_query_model_def
      constant_source_def py_float_def)

text \<open>
  C5 (amended). A baseline issues one aggregate query, restricted to the zone of the
  example (and, for the second baseline, to its hour) and to ids up to \<open>last_train_id\<close>
  of its dataset. If the answer has no row the prediction is 0.0; if it has exactly one
  row with a number as its average, that average is the prediction; if it has more than
  one row the prediction is 0.0 as well, and nothing is raised.
\<close>

theorem baseline_predict_by_row_count:
  assumes "query_average m = Some self" and "issued_query m test_example = Some q"
  shows "where_id_le q = last_train_id (model_dataset self)
     \<and> where_zone_id q = zone_id test_example
     \<and> (execute_query self q = Inr [] \<longrightarrow> predict m test_example = Inr 0)
     \<and> (execute_query self q = Inr [r] \<and> avg_num_pickups r = Number a
          \<longrightarrow> predict m test_example = Inr a)
     \<and> (execute_query self q = Inr results \<and> 1 < length results
          \<longrightarrow> predict m test_example = Inr 0)"
proof (intro conjI impI)
  show "where_id_le q = last_train_id (model_dataset self)"
    and "where_zone_id q = zone_id test_example"
    using issued_query_train_scoped [OF assms] by simp_all
next
  assume "execute_query self q = Inr []"
  from query_average_predict_rows [OF assms this] show "predict m test_example = Inr 0"
    by simp
next
  assume "execute_query self q = Inr [r] \<and> avg_num_pickups r = Number a"
  then have rows: "execute_query self q = Inr [r]" and avg: "avg_num_pickups r = Number a"
    by simp_all
  from query_average_predict_rows [OF assms rows] avg show "predict m test_example = Inr a"
    by (simp add: py_float_def)
next
  assume "execute_query self q = Inr results \<and> 1 < length results"
  then have rows: "execute_query self q = Inr results" and many: "1 < length results"
    by simp_all
  from many have "(case results of [r] \<Rightarrow> py_float (avg_num_pickups r) | _ \<Rightarrow> Inr 0) = Inr 0"
    by (auto split: list.splits)
  with query_average_predict_rows [OF assms rows] show "predict m test_example = Inr 0"
    by simp
qed

lemma sample_baseline_query:
  "issued_query (Baseline (sample_query_model rows) :: unit model) (mk_example 15)
     = Some (AvgNumPickups AGGREGATED_PICKUPS None 0 14)"
  "issued_query (BetterBaseline (sample_query_model rows) :: unit model) (mk_example 15)
     = Some (AvgNumPickups AGGREGATED_PICKUPS (Some 15) 0 14)"
  "execute_query (sample_query_model rows) q = Inr rows"
  by (simp_all add: Baseline_query_def BetterBaseline_query_def sample_query_model_def
      constant_source_def sample_dataset_fields mk_example_def)

theorem baseline_predict_by_row_count_witness:
  "query_average (BetterBaseline (sample_query_model [\<lparr>avg_num_pickups = Number 4\<rparr>])
      :: unit model) = Some (sample_query_model [\<lparr>avg_num_pickups = Number 4\<rparr>])
   \<and> issued_query (BetterBaseline (sample_query_model [\<lparr>avg_num_pickups = Number 4\<rparr>])
        :: unit model) (mk_example 15)
       = Some (AvgNumPickups AGGREGATED_PICKUPS (Some 15) 0 14)
   \<and> execute_query (sample_query_model [\<lparr>avg_num_pickups = Number 4\<rparr>])
        (AvgNumPickups AGGREGATED_PICKUPS (Some 15) 0 14) = Inr [\<lparr>avg_num_pickups = Number 4\<rparr>]
   \<and> predict (BetterBaseline (sample_query_model [\<lparr>avg_num_pickups = Number 4\<rparr>])
        :: unit model) (mk_example 15) = Inr 4
   \<and> execute_query (sample_query_model []) (AvgNumPickups AGGREGATED_PICKUPS None 0 14) = Inr []
   \<and> predict (Baseline (sample_query_model []) :: unit model) (mk_example 15) = Inr 0
   \<and> execute_query (sample_query_model [\<lparr>avg_num_pickups = Number 3\<rparr>, \<lparr>avg_num_pickups = Null\<rparr>])
        (AvgNumPickups AGGREGATED_PICKUPS None 0 14)
       = Inr [\<lparr>avg_num_pickups = Number 3\<rparr>, \<lparr>avg_num_pickups = Null\<rparr>]
   \<and> 1 < length [\<lparr>avg_num_pickups = Number 3\<rparr>, \<lparr>avg_num_pickups = Null\<rparr>]
   \<and> predict (Baseline (sample_query_model
        [\<lparr>avg_num_pickups = Number 3\<rparr>, \<lparr>avg_num_pickups = Null\<rparr>]) :: unit model)
        (mk_example 15) = Inr 0"
  using baseline_predict_by_row_count
    [of "BetterBaseline (sample_query_model [\<lparr>avg_num_pickups = Number 4\<rparr>]) :: unit model"
      "sample_query_model [\<lparr>avg_num_pickups = Number 4\<rparr>]" "mk_example 15"
      "AvgNumPickups AGGREGATED_PICKUPS (Some 15) 0 14" "\<lparr>avg_num_pickups = Number 4\<rparr>" 4]
    baseline_predict_by_row_count
    [of "Baseline (sample_query_model []) :: unit model"
      "sample_query_model []" "mk_example 15"
      "AvgNumPickups AGGREGATED_PICKUPS None 0 14"]
    baseline_predict_by_row_count
    [of "Baseline (sample_query_model
        [\<lparr>avg_num_pickups = Number 3\<rparr>, \<lparr>avg_num_pickups = Null\<rparr>]) :: unit model"
      "sample_query_model [\<lparr>avg_num_pickups = Number 3\<rparr>, \<lparr>avg_num_pickups = Null\<rparr>]"
      "mk_example 15" "AvgNumPickups AGGREGATED_PICKUPS None 0 14" undefined undefined
      "[\<lparr>avg_num_pickups = Number 3\<rparr>, \<lparr>avg_num_pickups = Null\<rparr>]"]
  by (simp add: sample_baseline_query del: predict.simps issued_query.simps)

text \<open>
  With two aggregate rows both baselines return 0.0: the call does not fail.
\<close>

theorem baseline_two_rows_not_an_error:
  "length [\<lparr>avg_num_pickups = Number 3\<rparr>, \<lparr>avg_num_pickups = Number 5\<rparr>] = 2
   \<and> predict (Baseline (sample_query_model
        [\<lparr>avg_num_pickups = Number 3\<rparr>, \<lparr>avg_num_pickups = Number 5\<rparr>]) :: unit model)
       (mk_example 15) = Inr 0
   \<and> predict (BetterBaseline (sample_query_model
        [\<lparr>avg_num_pickups = Number 3\<rparr>, \<lparr>avg_num_pickups = Number 5\<rparr>]) :: unit model)
       (mk_example 15) = Inr 0"
  by (simp add: Baseline_predict_def BetterBaseline_predict_def sample_query_model_def
      constant_source_def)

section \<open>The error metric\<close>

lemma sum_list_squares_nth:
  assumes "length ts = length ps"
  shows "sum_list (map (\<lambda>(t, p). (t - p)\<^sup>2) (zip ts ps))
       = (\<Sum>i<length ts. (ts ! i - ps ! i)\<^sup>2)"
proof -
  have "sum_list (map (\<lambda>(t, p). (t - p)\<^sup>2) (zip ts ps))
      = (\<Sum>i = 0..<length ts. map (\<lambda>(t, p). (t - p)\<^sup>2) (zip ts ps) ! i)"
    using assms by (simp add: sum_list_sum_nth)
  also have "\<dots> = (\<Sum>i = 0..<length ts. (ts ! i - ps ! i)\<^sup>2)"
    using assms by (intro sum.cong) simp_all
  finally show ?thesis by (simp add: atLeast0LessThan)
qed


lemma evaluatePredictions_nonempty:
  assumes "length ts = length ps" and "ts \<noteq> []"
  shows "evaluatePredictions ts ps =
     Inr \<lparr>true_printed = ts, predicted_printed = ps,
          rms = sqrt ((\<Sum>i<length ts. (ts ! i - ps ! i)\<^sup>2) / real (length ts))\<rparr>"
proof -
  have "0 \<le> (\<Sum>i<length ts. (ts ! i - ps ! i)\<^sup>2) / real (length ts)"
    by (simp add: sum_nonneg)
  then show ?thesis
    using assms
    by (simp add: evaluatePredictions_def mean_squared_error_def py_sqrt_def
        sum_list_squares_nth)
qed



section \<open>Evaluation\<close>

text \<open>The loop appends the predictions in the order of the test examples.\<close>

lemma predict_loop_Inr:
  "predict_loop f xs acc = Inr ys \<longleftrightarrow> (\<exists>zs. ys = acc @ zs \<and> map f xs = map Inr zs)"
proof (induction xs arbitrary: acc)
  case Nil
  show ?case by auto
next
  case (Cons x xs)
  show ?case
  proof (cases "f x")
    case (Inl e)
    then show ?thesis by (auto simp: map_eq_Cons_conv)
  next
    case (Inr y)
    have "predict_loop f (x # xs) acc = Inr ys
        \<longleftrightarrow> (\<exists>zs. ys = (acc @ [y]) @ zs \<and> map f xs = map Inr zs)"
      using Inr Cons.IH [of "acc @ [y]"] by simp
    also have "\<dots> \<longleftrightarrow> (\<exists>zs. ys = acc @ zs \<and> map f (x # xs) = map Inr zs)"
      using Inr by (auto simp: map_eq_Cons_conv Cons_eq_map_conv)
    finally show ?thesis .
  qed
qed

lemma predict_loop_defined:
  "(\<forall>x\<in>set xs. \<exists>y. f x = Inr y) \<Longrightarrow> \<exists>ys. predict_loop f xs acc = Inr ys"
proof (induction xs arbitrary: acc)
  case Nil
  show ?case by simp
next
  case (Cons x xs)
  then obtain y where "f x = Inr y" by auto
  with Cons show ?case by simp
qed

lemma predict_loop_length:
  "predict_loop f xs [] = Inr ys \<Longrightarrow> length ys = length xs"
proof -
  assume "predict_loop f xs [] = Inr ys"
  then have "map f xs = map Inr ys" by (simp add: predict_loop_Inr)
  then have "length (map f xs) = length (map Inr ys)" by simp
  then show ?thesis by simp
qed

text \<open>
  The collection of the test examples stops with the guard false, and every example it
  has collected lies above the train region.
\<close>

lemma test_examples_Inr:
  "test_examples d = (Inr test_data, d') \<Longrightarrow>
   \<not> hasMoreTestExamples d' \<and> (\<forall>ex\<in>set test_data. last_train_id d < row_id ex)"
proof (induction d arbitrary: test_data d' rule: test_examples.induct)
  case (1 d)
  show ?case
  proof (cases "hasMoreTestExamples d")
    case False
    with "1.prems" show ?thesis by (simp add: test_examples.simps [of d])
  next
    case True
    with "1.prems" obtain ex d1 rest
      where first: "getTestExample d = (Inr ex, d1)"
        and rest: "test_examples d1 = (Inr rest, d')"
        and data: "test_data = ex # rest"
      by (auto simp: test_examples.simps [of d] split: prod.splits sum.splits)
    from "1.IH" [OF True first [symmetric] refl rest]
    have "\<not> hasMoreTestExamples d'" and "\<forall>e\<in>set rest. last_train_id d1 < row_id e"
      by simp_all
    moreover have "last_train_id d1 = last_train_id d"
      using getTestExample_frame [of d] first by simp
    moreover have "last_train_id d < row_id ex"
      using first by (rule getTestExample_above_train)
    ultimately show ?thesis using data by simp
  qed
qed

text \<open>
  C4. \<^verbatim>\<open>Evaluator.evaluate\<close> takes its test examples and true labels from the
  model's \<^verbatim>\<open>generateTestData\<close>, which is modelled from the spec as the loop that calls
  \<^verbatim>\<open>getTestExample()\<close> while \<^verbatim>\<open>hasMoreTestExamples()\<close> is true. With it, whenever
  the evaluation prints a report, the true labels are the \<^verbatim>\<open>num_pickups\<close> of the
  examples that loop has returned, in order, the predicted labels are the values of
  \<^verbatim>\<open>predict\<close> on the same examples, and the dataset has no more test examples. The
  report is printed whenever the loop returns at least one example and every prediction
  returns.
\<close>

theorem evaluate_test_pairs:
  "(\<forall>r d'. evaluate generateTestData model_predict d = (Inr r, d') \<longrightarrow>
      (\<exists>test_data. test_examples d = (Inr test_data, d')
         \<and> \<not> hasMoreTestExamples d'
         \<and> true_printed r = map num_pickups test_data
         \<and> map model_predict test_data = map Inr (predicted_printed r)))
   \<and> (\<forall>test_data d'. test_examples d = (Inr test_data, d') \<and> test_data \<noteq> []
         \<and> (\<forall>ex\<in>set test_data. \<exists>y. model_predict ex = Inr y) \<longrightarrow>
      (\<exists>r. evaluate generateTestData model_predict d = (Inr r, d')))
   \<and> test_examples d =
       (if hasMoreTestExamples d then
          (case getTestExample d of
             (Inl e, d') \<Rightarrow> (Inl e, d')
           | (Inr test_example, d') \<Rightarrow>
               (case test_examples d' of
                  (Inl e, d'') \<Rightarrow> (Inl e, d'')
                | (Inr rest, d'') \<Rightarrow> (Inr (test_example # rest), d'')))
        else (Inr [], d))"
proof (intro conjI allI impI)
  fix r d'
  assume ev: "evaluate generateTestData model_predict d = (Inr r, d')"
  then obtain test_data predicted
    where td: "test_examples d = (Inr test_data, d')"
      and pl: "predict_loop model_predict test_data [] = Inr predicted"
      and ep: "evaluatePredictions (map num_pickups test_data) predicted = Inr r"
    by (auto simp: evaluate_def generateTestData_def split: prod.splits sum.splits)
  from pl have len: "length (map num_pickups test_data) = length predicted"
    by (simp add: predict_loop_length)
  from ep len have "true_printed r = map num_pickups test_data"
    and "predicted_printed r = predicted"
    by (auto simp: evaluatePredictions_def split: sum.splits if_splits)
  moreover from pl have "map model_predict test_data = map Inr predicted"
    by (simp add: predict_loop_Inr)
  moreover from td have "\<not> hasMoreTestExamples d'"
    by (simp add: test_examples_Inr)
  ultimately show "\<exists>test_data. test_examples d = (Inr test_data, d')
         \<and> \<not> hasMoreTestExamples d'
         \<and> true_printed r = map num_pickups test_data
         \<and> map model_predict test_data = map Inr (predicted_printed r)"
    using td by auto
next
  fix test_data d'
  assume a: "test_examples d = (Inr test_data, d') \<and> test_data \<noteq> []
         \<and> (\<forall>ex\<in>set test_data. \<exists>y. model_predict ex = Inr y)"
  then obtain predicted where pl: "predict_loop model_predict test_data [] = Inr predicted"
    using predict_loop_defined [of test_data model_predict "[]"] by blast
  then have len: "length (map num_pickups test_data) = length predicted"
    by (simp add: predict_loop_length)
  from a have "map num_pickups test_data \<noteq> []" by simp
  from evaluatePredictions_nonempty [OF len this] a pl
  show "\<exists>r. evaluate generateTestData model_predict d = (Inr r, d')"
    by (simp add: evaluate_def generateTestData_def)
next
  show "test_examples d =
       (if hasMoreTestExamples d then
          (case getTestExample d of
             (Inl e, d') \<Rightarrow> (Inl e, d')
           | (Inr test_example, d') \<Rightarrow>
               (case test_examples d' of
                  (Inl e, d'') \<Rightarrow> (Inl e, d'')
                | (Inr rest, d'') \<Rightarrow> (Inr (test_example # rest), d'')))
        else (Inr [], d))"
    by (rule test_examples.simps)
qed

lemma sample_test_examples:
  "test_examples (sample_dataset\<lparr>current_example_id := 19\<rparr>)
     = (Inr [mk_example 19, mk_example 20], sample_dataset\<lparr>current_example_id := 21\<rparr>)"
proof -
  have end_of_data: "test_examples (sample_dataset\<lparr>current_example_id := 21\<rparr>)
      = (Inr [], sample_dataset\<lparr>current_example_id := 21\<rparr>)"
    by (simp add: test_examples.simps [of "sample_dataset\<lparr>current_example_id := 21\<rparr>"]
        hasMoreTestExamples_def sample_dataset_fields)
  have last: "test_examples (sample_dataset\<lparr>current_example_id := 20\<rparr>)
      = (Inr [mk_example 20], sample_dataset\<lparr>current_example_id := 21\<rparr>)"
    by (simp add: test_examples.simps [of "sample_dataset\<lparr>current_example_id := 20\<rparr>"]
        hasMoreTestExamples_def getTestExample_def Let_def sample_dataset_fields
        getExamples_sample end_of_data)
  show ?thesis
    by (simp add: test_examples.simps [of "sample_dataset\<lparr>current_example_id := 19\<rparr>"]
        hasMoreTestExamples_def getTestExample_def Let_def sample_dataset_fields
        getExamples_sample last)
qed

lemma sample_evaluate:
  "evaluate generateTestData (constant_predict 4 ()) (sample_dataset\<lparr>current_example_id := 19\<rparr>)
     = (Inr \<lparr>true_printed = [4, 0], predicted_printed = [4, 4], rms = sqrt 8\<rparr>,
        sample_dataset\<lparr>current_example_id := 21\<rparr>)"
  by (simp add: evaluate_def generateTestData_def sample_test_examples constant_predict_def
      evaluatePredictions_def mean_squared_error_def py_sqrt_def mk_example_def)

theorem evaluate_test_pairs_witness:
  "evaluate generateTestData (constant_predict 4 ()) (sample_dataset\<lparr>current_example_id := 19\<rparr>)
     = (Inr \<lparr>true_printed = [4, 0], predicted_printed = [4, 4], rms = sqrt 8\<rparr>,
        sample_dataset\<lparr>current_example_id := 21\<rparr>)
   \<and> test_examples (sample_dataset\<lparr>current_example_id := 19\<rparr>)
       = (Inr [mk_example 19, mk_example 20], sample_dataset\<lparr>current_example_id := 21\<rparr>)
   \<and> \<not> hasMoreTestExamples (sample_dataset\<lparr>current_example_id := 21\<rparr>)
   \<and> map num_pickups [mk_example 19, mk_example 20] = [4, 0]
   \<and> map (constant_predict 4 ()) [mk_example 19, mk_example 20] = map Inr [4, 4]"
  using evaluate_test_pairs [of "constant_predict 4 ()" "sample_dataset\<lparr>current_example_id := 19\<rparr>"]
    sample_evaluate sample_test_examples
  by (simp add: constant_predict_def mk_example_def)

section \<open>The entry point\<close>





end
